theory Spec2Isabelle
  imports Complex_Main
begin

section \<open>JavaScript strings\<close>

text \<open>
  A JavaScript string is a sequence of UTF-16 code units; \<open>length\<close>, \<open>slice\<close>,
  \<open>includes\<close> and the regular expressions of the source (none has the \<open>u\<close> flag) all
  work on code units. A string is modelled as the list of its code units, so that the
  euro sign of a revenue text is the single unit 8364. \<open>str\<close> embeds an ASCII literal.
\<close>

type_synonym jsstring = "nat list"

definition str :: "string \<Rightarrow> jsstring" where
  "str s = map of_char s"

text \<open>
  White space and line terminators of ECMAScript: what \<open>String.prototype.trim\<close> strips
  and what \<open>\s\<close> matches.
\<close>

definition is_space :: "nat \<Rightarrow> bool" where
  "is_space c = (c \<in> set [9, 10, 11, 12, 13, 32, 160, 5760, 8232, 8233, 8239, 8287, 12288, 65279]
                 \<or> (8192 \<le> c \<and> c \<le> 8202))"

definition is_digit :: "nat \<Rightarrow> bool" where
  "is_digit c = (48 \<le> c \<and> c \<le> 57)"

definition is_lower_az :: "nat \<Rightarrow> bool" where
  "is_lower_az c = (97 \<le> c \<and> c \<le> 122)"

definition trim :: "jsstring \<Rightarrow> jsstring" where
  "trim s = rev (dropWhile is_space (rev (dropWhile is_space s)))"

text \<open>
  \<open>toLowerCase\<close> on one code unit: ASCII and Latin-1 capitals move by 32, the Kelvin
  sign (8490) becomes \<open>k\<close> and the dotted capital I (304) becomes \<open>i\<close> followed by a
  combining dot (775). These two are the only units outside ASCII whose lower-case form
  contains an ASCII unit. Every other unit beyond Latin-1 is left as it is: its
  lower-case form in JavaScript is again one non-ASCII unit that is no line terminator,
  and the source only ever looks for ASCII letters, digits and white space in a
  lower-cased text.
\<close>

definition lower_unit :: "nat \<Rightarrow> jsstring" where
  "lower_unit c =
     (if 65 \<le> c \<and> c \<le> 90 then [c + 32]
      else if 192 \<le> c \<and> c \<le> 222 \<and> c \<noteq> 215 then [c + 32]
      else if c = 304 then [105, 775]
      else if c = 8490 then [107]
      else [c])"

definition toLowerCase :: "jsstring \<Rightarrow> jsstring" where
  "toLowerCase s = concat (map lower_unit s)"

fun startsWith :: "jsstring \<Rightarrow> jsstring \<Rightarrow> bool" where
  "startsWith s [] = True"
| "startsWith [] (a # as) = False"
| "startsWith (c # s) (a # as) = (c = a \<and> startsWith s as)"

text \<open>\<open>s.includes(a)\<close>: \<open>a\<close> occurs in \<open>s\<close> at some position.\<close>

fun includes_js :: "jsstring \<Rightarrow> jsstring \<Rightarrow> bool" where
  "includes_js [] a = startsWith [] a"
| "includes_js (c # s) a = (startsWith (c # s) a \<or> includes_js s a)"

section \<open>JavaScript numbers\<close>

text \<open>
  A number is an IEEE 754 double. A finite double is a real, and the model computes with
  reals: an arithmetic operation of the source is the exact operation followed by
  \<open>dbl\<close>, the rounding of a real to the nearest double, ties to the even significand.
  Comparisons and \<open>Math.round\<close> are exact on doubles.

  \<open>dbl\<close> scales the magnitude by powers of two into the range from \<open>2^52\<close> to
  \<open>2^53\<close>, where the doubles are the integers, rounds there and scales back. Scaling up
  stops after 1074 doublings, which gives the subnormal numbers their fixed spacing of
  \<open>2^-1074\<close> and rounds smaller magnitudes to zero. Scaling down stops after 971
  halvings: a magnitude that rounds to \<open>2^1024\<close> or more is \<open>Infinity\<close> in JavaScript
  and is outside the model, as is \<open>NaN\<close> (a missing number is \<open>None\<close> where the source
  can produce one).
\<close>

definition round_even :: "real \<Rightarrow> int" where
  "round_even y =
     (let f = \<lfloor>y\<rfloor>; r = y - real_of_int f
      in if r < 1 / 2 then f else if 1 / 2 < r then f + 1 else if even f then f else f + 1)"

fun dbl_up :: "nat \<Rightarrow> real \<Rightarrow> real" where
  "dbl_up 0 a = real_of_int (round_even a)"
| "dbl_up (Suc n) a =
     (if 2 ^ 53 \<le> a then 2 * dbl_up n (a / 2) else real_of_int (round_even a))"

fun dbl_down :: "nat \<Rightarrow> real \<Rightarrow> real" where
  "dbl_down 0 a = real_of_int (round_even a)"
| "dbl_down (Suc n) a =
     (if a < 2 ^ 52 then dbl_down n (2 * a) / 2 else real_of_int (round_even a))"

definition dbl_pos :: "real \<Rightarrow> real" where
  "dbl_pos a = (if 2 ^ 53 \<le> a then dbl_up 971 a else dbl_down 1074 a)"

definition dbl :: "real \<Rightarrow> real" where
  "dbl x = (if x = 0 then 0 else if x < 0 then - dbl_pos (- x) else dbl_pos x)"

section \<open>Stage resolution (api/report.js)\<close>

text \<open>
  The alias table of \<open>resolveStage\<close>, in the order \<open>Object.entries\<close> walks it.
\<close>

definition stage_aliases :: "(jsstring \<times> jsstring list) list" where
  "stage_aliases =
    [(str ''pre_seed_idea'',
        map str [''pre-seed'', ''pre seed'', ''idea'', ''concept'', ''pre-revenue'', ''prerevenue'',
                 ''pre revenue'', ''just started'', ''no revenue'', ''prototype'']),
     (str ''seed_startup'',
        map str [''seed'', ''startup'', ''early'', ''pre-series-a'', ''pre series a'', ''angel'',
                 ''bootstrap'', ''bootstrapped'']),
     (str ''early_scale'',
        map str [''series a'', ''series-a'', ''growth'', ''scaling'', ''scale'', ''early scale'',
                 ''growing'', ''scaleup'']),
     (str ''expansion_enterprise'',
        map str [''series b'', ''series-b'', ''series c'', ''enterprise'', ''expansion'', ''mature'',
                 ''ipo'', ''late stage''])]"

definition canonical_stages :: "jsstring list" where
  "canonical_stages =
     map str [''pre_seed_idea'', ''seed_startup'', ''early_scale'', ''expansion_enterprise'']"

text \<open>The \<open>for ... of\<close> loop over the table: the first key with a matching alias.\<close>

fun first_alias_match :: "(jsstring \<times> jsstring list) list \<Rightarrow> jsstring \<Rightarrow> jsstring option" where
  "first_alias_match [] s = None"
| "first_alias_match ((key, aliases) # rest) s =
     (if list_ex (includes_js s) aliases then Some key else first_alias_match rest s)"

text \<open>
  \<open>resolveStage(rawStage)\<close>. The argument is a string or missing (\<open>None\<close> for
  \<open>undefined\<close> and \<open>null\<close>); the empty string is falsy as well.
\<close>

definition resolveStage :: "jsstring option \<Rightarrow> jsstring" where
  "resolveStage rawStage =
     (case rawStage of
        None \<Rightarrow> str ''seed_startup''
      | Some raw \<Rightarrow>
          (if raw = [] then str ''seed_startup''
          else
            let s = filter (\<lambda>c. is_lower_az c \<or> is_digit c \<or> is_space c) (toLowerCase raw)
            in (case first_alias_match stage_aliases s of
                  Some key \<Rightarrow> key
                | None \<Rightarrow> if raw \<in> set canonical_stages then raw else str ''seed_startup'')))"

section \<open>Profile, session and phases (auth-check.js, interview backend)\<close>

text \<open>
  Values that arrive as JSON from the generation service: \<open>null\<close>, booleans, numbers
  and strings. A number stands for the value of its double; only its being zero and
  equality are ever inspected here. Array and object items are outside the model (a
  \<open>Set\<close> compares them by reference).
\<close>

datatype item = INull | IBool bool | INum real | IStr jsstring

text \<open>
  A profile field holds a string or an array, as \<open>createSession\<close> lays it out; the
  profile is looked up by field name, \<open>None\<close> standing for a name it does not own.
\<close>

datatype pval = PStr jsstring | PList "item list"

type_synonym profile = "jsstring \<Rightarrow> pval option"

text \<open>A candidate value of \<open>profile_updates\<close>: one item, or an array of items.\<close>

datatype uval = One item | Many "item list"

record phase =
  display :: jsstring
  next_phase :: "jsstring option"
  minTurns :: int
  checklist :: "jsstring list"

text \<open>
  The table \<open>PHASES\<close>, without its prompt texts (\<open>depthTopics\<close>, \<open>description\<close>).
\<close>

definition PHASES :: "jsstring \<Rightarrow> phase option" where
  "PHASES = map_of
    [(str ''welcome'',
        \<lparr>display = str ''welcome'', next_phase = Some (str ''company''), minTurns = 1,
         checklist = []\<rparr>),
     (str ''company'',
        \<lparr>display = str ''company'', next_phase = Some (str ''gtm''), minTurns = 4,
         checklist = map str [''businessModel'', ''stage'', ''revenue'', ''teamSize'', ''funding'']\<rparr>),
     (str ''gtm'',
        \<lparr>display = str ''gtm'', next_phase = Some (str ''sales''), minTurns = 4,
         checklist = map str [''icpTitle'', ''salesMotion'', ''channels'', ''avgDealSize'']\<rparr>),
     (str ''sales'',
        \<lparr>display = str ''sales'', next_phase = Some (str ''diagnosis''), minTurns = 4,
         checklist = map str [''salesProcess'', ''whoCloses'', ''mainBottleneck'']\<rparr>),
     (str ''diagnosis'',
        \<lparr>display = str ''diagnosis'', next_phase = Some (str ''pre_finish''), minTurns = 2,
         checklist = map str [''diagnosedProblems'', ''userPriority'']\<rparr>),
     (str ''pre_finish'',
        \<lparr>display = str ''pre_finish'', next_phase = None, minTurns = 1,
         checklist = []\<rparr>)]"

datatype role = User | Assistant

record session =
  currentPhase :: jsstring
  phaseTurns :: int
  totalTurns :: int
  welcomeDone :: bool
  diagnosisPresented :: bool
  diagnosisValidated :: bool
  transcript :: "(role \<times> jsstring) list"
  profile :: profile
  scrapedSummary :: jsstring

text \<open>
  The lookup \<open>PHASES[name]\<close>. \<open>PHASES\<close> is an object literal, so a name that is
  not one of its own keys can still find a property of \<open>Object.prototype\<close>: a function,
  or for \<open>__proto__\<close> the prototype itself. Such a value is truthy and has none of the
  fields \<open>minTurns\<close>, \<open>next\<close> and \<open>checklist\<close>.
\<close>

datatype phase_entry = Own phase | Inherited

definition inherited_names :: "jsstring list" where
  "inherited_names = map str
     [''constructor'', ''__defineGetter__'', ''__defineSetter__'', ''hasOwnProperty'',
      ''__lookupGetter__'', ''__lookupSetter__'', ''isPrototypeOf'', ''propertyIsEnumerable'',
      ''toString'', ''valueOf'', ''__proto__'', ''toLocaleString'']"

definition phase_of :: "jsstring \<Rightarrow> phase_entry option" where
  "phase_of name =
     (case PHASES name of
        Some ph \<Rightarrow> Some (Own ph)
      | None \<Rightarrow> if name \<in> set inherited_names then Some Inherited else None)"

subsection \<open>Phase logic\<close>

text \<open>
  The test of one checklist entry:
  \<open>Array.isArray(v) ? v.length > 0 : (v && v.trim() !== '')\<close>.
\<close>

definition filled :: "pval option \<Rightarrow> bool" where
  "filled v =
     (case v of
        None \<Rightarrow> False
      | Some (PList xs) \<Rightarrow> xs \<noteq> []
      | Some (PStr s) \<Rightarrow> s \<noteq> [] \<and> trim s \<noteq> [])"

text \<open>
  For an inherited entry every test of \<open>canAdvancePhase\<close> falls through (a comparison
  with \<open>undefined\<close> is false, the phase name is none of the three special ones, and
  there is no checklist), so the final \<open>return true\<close> is reached.
\<close>

definition canAdvancePhase :: "session \<Rightarrow> bool" where
  "canAdvancePhase S =
     (case phase_of (currentPhase S) of
        None \<Rightarrow> False
      | Some Inherited \<Rightarrow> True
      | Some (Own ph) \<Rightarrow>
          (if phaseTurns S < minTurns ph then False
           else if currentPhase S = str ''welcome'' then welcomeDone S
           else if currentPhase S = str ''pre_finish'' then False
           else if currentPhase S = str ''diagnosis'' then
             diagnosisPresented S \<and> diagnosisValidated S
             \<and> profile S (str ''userPriority'') \<noteq> Some (PStr [])
           else if checklist ph \<noteq> [] then
             list_all (\<lambda>k. filled (profile S k)) (checklist ph)
           else True))"

text \<open>\<open>doAdvance\<close> mutates the session and returns a flag; the model returns both.\<close>

definition doAdvance :: "session \<Rightarrow> bool \<times> session" where
  "doAdvance S =
     (case phase_of (currentPhase S) of
        None \<Rightarrow> (False, S)
      | Some Inherited \<Rightarrow> (False, S)
      | Some (Own ph) \<Rightarrow>
          (case next_phase ph of
             None \<Rightarrow> (False, S)
           | Some n \<Rightarrow> (True, S\<lparr>currentPhase := n, phaseTurns := 0\<rparr>)))"

text \<open>The handler's phase check: \<open>if (canAdvancePhase(S)) { doAdvance(S); }\<close>.\<close>

definition phase_check :: "session \<Rightarrow> session" where
  "phase_check S = (if canAdvancePhase S then snd (doAdvance S) else S)"

subsection \<open>Merging profile updates\<close>

text \<open>The filter of the list branch: \<open>i && String(i).trim()\<close>.\<close>

definition accepted :: "item \<Rightarrow> bool" where
  "accepted i =
     (case i of
        INull \<Rightarrow> False
      | IBool b \<Rightarrow> b
      | INum r \<Rightarrow> r \<noteq> 0
      | IStr s \<Rightarrow> s \<noteq> [] \<and> trim s \<noteq> [])"

text \<open>
  \<open>[...new Set(xs)]\<close>: a \<open>Set\<close> keeps its elements in insertion order, and adding an
  element it already has changes nothing.
\<close>

definition set_add :: "'a list \<Rightarrow> 'a \<Rightarrow> 'a list" where
  "set_add acc x = (if x \<in> set acc then acc else acc @ [x])"

definition set_spread :: "'a list \<Rightarrow> 'a list" where
  "set_spread xs = foldl set_add [] xs"

definition items_of :: "uval \<Rightarrow> item list" where
  "items_of v = (case v of Many xs \<Rightarrow> xs | One x \<Rightarrow> [x])"

text \<open>
  The body of the loop over \<open>Object.entries(llm.profile_updates)\<close>, for one entry
  \<open>[k, v]\<close>.
\<close>

definition apply_update :: "profile \<Rightarrow> jsstring \<times> uval \<Rightarrow> profile" where
  "apply_update p kv =
     (case kv of (k, v) \<Rightarrow>
        (if v = One INull \<or> p k = None then p
         else
           (case p k of
              Some (PList old) \<Rightarrow>
                p(k \<mapsto> PList (set_spread (old @ filter accepted (items_of v))))
            | _ \<Rightarrow>
                (case v of
                   One (IStr s) \<Rightarrow> if trim s \<noteq> [] then p(k \<mapsto> PStr (trim s)) else p
                 | _ \<Rightarrow> p))))"

definition merge_updates :: "profile \<Rightarrow> (jsstring \<times> uval) list \<Rightarrow> profile" where
  "merge_updates p us = foldl apply_update p us"

subsection \<open>Confidence\<close>

datatype error = TypeError

definition core_fields :: "jsstring list" where
  "core_fields = map str
     [''companyName'', ''businessModel'', ''stage'', ''revenue'', ''teamSize'', ''funding'',
      ''icpTitle'', ''salesMotion'', ''channels'', ''avgDealSize'',
      ''salesProcess'', ''whoCloses'', ''mainBottleneck'']"

definition depth_fields :: "jsstring list" where
  "depth_fields = map str
     [''teamRoles'', ''pricingModel'', ''revenueGrowth'', ''competitiveLandscape'',
      ''icpCompanySize'', ''icpPainPoints'', ''bestChannel'', ''salesCycle'',
      ''winRate'', ''lostDealReasons'', ''churnRate'', ''crm'', ''tools'']"

definition milestone_fields :: "jsstring list" where
  "milestone_fields = map str [''diagnosedProblems'', ''userPriority'']"

text \<open>
  \<open>v && v.trim()\<close> as a condition. An array is truthy and has no \<open>trim\<close>: the call
  throws a \<open>TypeError\<close>.
\<close>

definition str_present :: "pval option \<Rightarrow> error + bool" where
  "str_present v =
     (case v of
        None \<Rightarrow> Inr False
      | Some (PStr s) \<Rightarrow> Inr (s \<noteq> [] \<and> trim s \<noteq> [])
      | Some (PList xs) \<Rightarrow> Inl TypeError)"

text \<open>
  The loops \<open>for (const k of ks) { const v = p[k]; if (v && v.trim()) score += w; }\<close>
  over the core and the depth fields.
\<close>

fun add_present :: "profile \<Rightarrow> int \<Rightarrow> jsstring list \<Rightarrow> int \<Rightarrow> error + int" where
  "add_present p w [] score = Inr score"
| "add_present p w (k # ks) score =
     (case str_present (p k) of
        Inl e \<Rightarrow> Inl e
      | Inr b \<Rightarrow> add_present p w ks (if b then score + w else score))"

text \<open>The loop over the milestone fields, whose test is the one of the checklist.\<close>

fun add_milestones :: "profile \<Rightarrow> jsstring list \<Rightarrow> int \<Rightarrow> int" where
  "add_milestones p [] score = score"
| "add_milestones p (k # ks) score =
     add_milestones p ks (if filled (p k) then score + 6 else score)"

text \<open>
  \<open>Math.round\<close> rounds to the nearest integer, a half upwards. The quotient
  \<open>score / 90 * 100\<close> is taken over the reals: for an integer score it is never
  within 1/18 of a half, so the rounding error of the doubles cannot change the result.
\<close>

definition js_round :: "real \<Rightarrow> int" where
  "js_round x = \<lfloor>x + 1 / 2\<rfloor>"

definition calcConf :: "session \<Rightarrow> error + int" where
  "calcConf S =
     (case add_present (profile S) 4 core_fields 0 of
        Inl e \<Rightarrow> Inl e
      | Inr s1 \<Rightarrow>
          (case add_present (profile S) 2 depth_fields s1 of
             Inl e \<Rightarrow> Inl e
           | Inr s2 \<Rightarrow>
               Inr (min 100 (js_round (real_of_int (add_milestones (profile S) milestone_fields s2)
                                       / 90 * 100)))))"

subsection \<open>Options validation\<close>

text \<open>
  What \<open>sanitizeOptions\<close> inspects of the raw value: whether it is an array, and for
  each entry whether it is truthy and what its \<open>key\<close> and \<open>label\<close> are. \<open>FOther\<close> is
  a property that is missing or not a string; \<open>Falsy\<close> is an entry such as \<open>null\<close>.
\<close>

datatype jfield = FStr jsstring | FOther

datatype raw_option = Falsy | Entry jfield jfield

datatype raw_options = NotArray | Arr "raw_option list"

record option_btn =
  key :: jsstring
  label :: jsstring

definition valid_option :: "raw_option \<Rightarrow> bool" where
  "valid_option ro =
     (case ro of
        Entry (FStr k) (FStr l) \<Rightarrow> length k > 0 \<and> length l > 0
      | _ \<Rightarrow> False)"

definition clip_option :: "raw_option \<Rightarrow> option_btn" where
  "clip_option ro =
     (case ro of
        Entry (FStr k) (FStr l) \<Rightarrow> \<lparr>key = take 80 k, label = take 120 l\<rparr>
      | _ \<Rightarrow> \<lparr>key = [], label = []\<rparr>)"

text \<open>
  The default sets. Their labels hold three non-ASCII characters: an em dash (8212), an
  arrow (8594) and a pictograph that takes two code units (55357, 56549).
\<close>

definition getDefaults :: "session \<Rightarrow> option_btn list" where
  "getDefaults S =
     (if currentPhase S = str ''welcome'' then
        [\<lparr>key = str ''correct'', label = str ''Yes, mostly correct''\<rparr>,
         \<lparr>key = str ''partial'', label = str ''Partially '' @ [8212] @ str '' let me clarify''\<rparr>,
         \<lparr>key = str ''wrong'', label = str ''Not quite right''\<rparr>]
      else if currentPhase S = str ''pre_finish'' then
        [\<lparr>key = str ''generate_report'',
          label = [55357, 56549] @ str '' Generate Strategic Growth Plan''\<rparr>,
         \<lparr>key = str ''add_context'', label = str ''Add more context first''\<rparr>]
      else
        [\<lparr>key = str ''continue'', label = str ''Continue '' @ [8594]\<rparr>,
         \<lparr>key = str ''explain'', label = str ''Let me explain in detail''\<rparr>])"

definition sanitizeOptions :: "raw_options \<Rightarrow> session \<Rightarrow> option_btn list" where
  "sanitizeOptions raw S =
     (case raw of
        NotArray \<Rightarrow> getDefaults S
      | Arr xs \<Rightarrow>
          (if length xs = 0 then getDefaults S
           else
             let valid = take 6 (map clip_option (filter valid_option xs))
             in if length valid \<ge> 2 then valid else getDefaults S))"

section \<open>Feasibility checks (api/report.js)\<close>

text \<open>
  The report reads string fields of the profile only (\<open>replace\<close>, \<open>toLowerCase\<close> and
  the regular expressions are applied to them); its profile argument is modelled as the
  map from a field name to the field's text, \<open>None\<close> for a field that is missing.
\<close>

type_synonym report_profile = "jsstring \<Rightarrow> jsstring option"

text \<open>A missing field and the empty string are falsy.\<close>

definition truthy :: "jsstring option \<Rightarrow> bool" where
  "truthy v = (case v of None \<Rightarrow> False | Some s \<Rightarrow> s \<noteq> [])"

text \<open>\<open>v || d\<close> for a string field \<open>v\<close> and a default text \<open>d\<close>.\<close>

definition or_else :: "jsstring option \<Rightarrow> jsstring \<Rightarrow> jsstring" where
  "or_else v d = (case v of None \<Rightarrow> d | Some s \<Rightarrow> if s = [] then d else s)"

subsection \<open>Regular expressions\<close>

text \<open>
  The patterns of the source are alternatives of literal characters and the wildcard
  \<open>.\<close>, which matches any code unit but a line terminator. \<open>test\<close> succeeds when some
  alternative matches at some position.
\<close>

datatype pat = Lit nat | AnyUnit

definition pattern :: "string \<Rightarrow> pat list" where
  "pattern s = map (\<lambda>c. if c = CHR ''.'' then AnyUnit else Lit (of_char c)) s"

definition unit_matches :: "pat \<Rightarrow> nat \<Rightarrow> bool" where
  "unit_matches q c =
     (case q of Lit a \<Rightarrow> c = a | AnyUnit \<Rightarrow> c \<notin> set [10, 13, 8232, 8233])"

fun match_here :: "pat list \<Rightarrow> jsstring \<Rightarrow> bool" where
  "match_here [] s = True"
| "match_here (q # qs) [] = False"
| "match_here (q # qs) (c # s) = (unit_matches q c \<and> match_here qs s)"

fun match_somewhere :: "pat list \<Rightarrow> jsstring \<Rightarrow> bool" where
  "match_somewhere qs [] = match_here qs []"
| "match_somewhere qs (c # s) = (match_here qs (c # s) \<or> match_somewhere qs s)"

definition regex_test :: "string list \<Rightarrow> jsstring \<Rightarrow> bool" where
  "regex_test alts s = list_ex (\<lambda>a. match_somewhere (pattern a) s) alts"

text \<open>
  The flag \<open>i\<close>: without the flag \<open>u\<close>, a code unit beyond ASCII never matches an
  ASCII letter of the pattern, so the match is the case-sensitive one on the text with its
  ASCII capitals lowered (every letter of the patterns is a small one).
\<close>

definition fold_ascii :: "nat \<Rightarrow> nat" where
  "fold_ascii c = (if 65 \<le> c \<and> c \<le> 90 then c + 32 else c)"

definition regex_test_i :: "string list \<Rightarrow> jsstring \<Rightarrow> bool" where
  "regex_test_i alts s = regex_test alts (map fold_ascii s)"

subsection \<open>Numbers read from text\<close>

definition digits_value :: "jsstring \<Rightarrow> nat" where
  "digits_value ds = foldl (\<lambda>n c. 10 * n + (c - 48)) 0 ds"

text \<open>
  \<open>parseInt\<close> on a text of decimal digits only, which is what the source passes after
  \<open>replace(/[^0-9]/g, '')\<close>: \<open>None\<close> is \<open>NaN\<close>, the result for the empty text. The
  number is only compared with small integers, which the rounding of a long digit string
  to a double does not affect.
\<close>

definition parseInt_digits :: "jsstring \<Rightarrow> nat option" where
  "parseInt_digits s =
     (let ds = takeWhile is_digit s in if ds = [] then None else Some (digits_value ds))"

text \<open>
  \<open>parseFloat\<close> on a text of digits, dots and commas: the longest prefix of the form
  digits, or digits-dot-digits with at least one digit, is read; \<open>None\<close> is \<open>NaN\<close>.
  The result is the double nearest to the decimal value read.
\<close>

definition parseFloat_dec :: "jsstring \<Rightarrow> real option" where
  "parseFloat_dec s =
     (let ip = takeWhile is_digit s;
          fp = (case dropWhile is_digit s of
                  [] \<Rightarrow> []
                | c # r \<Rightarrow> if c = 46 then takeWhile is_digit r else [])
      in if ip = [] \<and> fp = [] then None
         else Some (dbl (real (digits_value ip) + real (digits_value fp) / 10 ^ length fp)))"

text \<open>Comparisons with a number that may be \<open>NaN\<close> are false for \<open>NaN\<close>.\<close>

definition num_test :: "'a option \<Rightarrow> ('a \<Rightarrow> bool) \<Rightarrow> bool" where
  "num_test n P = (case n of None \<Rightarrow> False | Some x \<Rightarrow> P x)"

subsection \<open>Stage data\<close>

text \<open>
  One entry of a stage's benchmark table. \<open>None\<close> is a missing value (for the median,
  \<open>null\<close> as well). The table itself is data of the repository that is loaded from a
  file; it is a parameter here.
\<close>

record bm_entry =
  median :: "real option"
  good :: "real option"
  bad :: "real option"

record stage_data =
  stage_label :: "jsstring option"
  benchmarks :: "(jsstring \<Rightarrow> bm_entry option) option"

subsection \<open>The rules\<close>

datatype flag_type = Contradiction | AntiPattern | Risk | Structural

datatype severity = Medium | High

text \<open>
  A flag, without its \<open>detail\<close> and \<open>recommendation\<close> texts.
\<close>

record flag =
  ftype :: flag_type
  fseverity :: severity
  issue :: jsstring

definition teamNum :: "report_profile \<Rightarrow> nat option" where
  "teamNum p = parseInt_digits (filter is_digit (or_else (p (str ''teamSize'')) (str ''0'')))"

definition rule_budget :: "report_profile \<Rightarrow> flag list" where
  "rule_budget p =
     (if p (str ''budgetLevel'') = Some (str ''limited'') \<and> truthy (p (str ''growthTarget'')) then
        (let growthNum = parseInt_digits (filter is_digit (the (p (str ''growthTarget''))))
         in if num_test growthNum (\<lambda>n. n > 100) then
              [\<lparr>ftype = Contradiction, fseverity = High,
                issue = str ''High growth target with limited budget''\<rparr>]
            else [])
      else [])"

definition rule_tools :: "report_profile \<Rightarrow> stage_data option \<Rightarrow> flag list" where
  "rule_tools p stageData =
     (case stageData of
        None \<Rightarrow> []
      | Some sd \<Rightarrow>
          (let stageLabel = (case stage_label sd of None \<Rightarrow> str ''undefined'' | Some l \<Rightarrow> l);
               tools = toLowerCase (or_else (p (str ''tools'')) []);
               crm = toLowerCase (or_else (p (str ''crm'')) [])
           in if resolveStage (if truthy (p (str ''companyStage'')) then p (str ''companyStage'')
                               else p (str ''stage'')) \<in> set [str ''pre_seed_idea'']
                 \<and> regex_test [''salesforce'', ''hubspot pro'', ''hubspot enterprise'', ''marketo'',
                                ''outreach'', ''salesloft'', ''gong'', ''6sense''] (tools @ crm)
              then [\<lparr>ftype = AntiPattern, fseverity = Medium,
                     issue = str ''Enterprise-grade tools at '' @ stageLabel @ str '' stage''\<rparr>]
              else []))"

definition rule_team :: "report_profile \<Rightarrow> flag list" where
  "rule_team p =
     (if num_test (teamNum p) (\<lambda>n. n \<le> 5)
         \<and> regex_test [''outbound'', ''abm'', ''account.based'']
              (toLowerCase (or_else (p (str ''salesMotion'')) []))
      then [\<lparr>ftype = Contradiction, fseverity = Medium,
             issue = str ''Outbound/ABM motion with tiny team''\<rparr>]
      else [])"

definition rule_runway :: "report_profile \<Rightarrow> flag list" where
  "rule_runway p =
     (if truthy (p (str ''funding'')) \<and> truthy (p (str ''revenue'')) then
        (let isBoot = regex_test_i [''bootstrap'', ''self.funded'', ''no funding'']
                        (the (p (str ''funding'')));
             mrr = parseInt_digits (filter is_digit (or_else (p (str ''revenue'')) (str ''0'')))
         in if isBoot \<and> num_test mrr (\<lambda>n. n < 5000) \<and> num_test (teamNum p) (\<lambda>n. n > 5) then
              [\<lparr>ftype = Risk, fseverity = High, issue = str ''Cash runway concern''\<rparr>]
            else [])
      else [])"

definition rule_founder :: "report_profile \<Rightarrow> flag list" where
  "rule_founder p =
     (if truthy (p (str ''whoCloses'')) \<and> truthy (p (str ''mainBottleneck'')) then
        (let founderCloses = regex_test_i [''founder'', ''ceo'', ''co-founder'', ''io'', ''myself'']
                               (the (p (str ''whoCloses'')));
             scalingBottleneck = regex_test_i [''scaling'', ''growth'', ''capacity'']
                                   (the (p (str ''mainBottleneck'')))
         in if founderCloses \<and> scalingBottleneck then
              [\<lparr>ftype = Structural, fseverity = High,
                issue = str ''Founder bottleneck blocks scaling''\<rparr>]
            else [])
      else [])"

definition rule_churn :: "report_profile \<Rightarrow> flag list" where
  "rule_churn p =
     (if truthy (p (str ''churnRate'')) \<and> truthy (p (str ''mainBottleneck'')) then
        (let churnNum = parseFloat_dec (filter (\<lambda>c. is_digit c \<or> c = 46)
                                         (or_else (p (str ''churnRate'')) (str ''0'')));
             focusOnLeads = regex_test_i [''lead'', ''acquisition'', ''pipeline'', ''traffic'']
                              (the (p (str ''mainBottleneck'')))
         in if num_test churnNum (\<lambda>x. x > 5) \<and> focusOnLeads then
              [\<lparr>ftype = Contradiction, fseverity = High,
                issue = str ''Leaky bucket: high churn with acquisition focus''\<rparr>]
            else [])
      else [])"

text \<open>
  \<open>runFeasibilityChecks\<close>: the six rules in the order of the source, each pushing at
  most one flag.
\<close>

definition runFeasibilityChecks :: "report_profile \<Rightarrow> stage_data option \<Rightarrow> flag list" where
  "runFeasibilityChecks p stageData =
     rule_budget p @ rule_tools p stageData @ rule_team p @ rule_runway p
     @ rule_founder p @ rule_churn p"

section \<open>Chart and dashboard data (report API with charts)\<close>

text \<open>
  The arithmetic of this part is the one of doubles: every product, difference and
  quotient is rounded by \<open>dbl\<close>. \<open>Math.round\<close> is \<open>js_round\<close>.
\<close>

text \<open>\<open>replace(',', '.')\<close> with a string pattern replaces the first comma only.\<close>

fun replace_first_comma :: "jsstring \<Rightarrow> jsstring" where
  "replace_first_comma [] = []"
| "replace_first_comma (c # s) = (if c = 44 then 46 # s else c # replace_first_comma s)"

text \<open>The helper \<open>num\<close>, on a profile field that is a text or missing.\<close>

definition num :: "jsstring option \<Rightarrow> real option" where
  "num v =
     (case v of
        None \<Rightarrow> None
      | Some t \<Rightarrow>
          (let s = replace_first_comma (filter (\<lambda>c. is_digit c \<or> c = 46 \<or> c = 44) t)
           in if s = [] then None else parseFloat_dec s))"

record metric_def =
  mkey :: jsstring
  mlabel :: jsstring
  userField :: "jsstring option"
  unit :: jsstring
  lowerBetter :: bool

definition metricDefs :: "report_profile \<Rightarrow> metric_def list" where
  "metricDefs p =
     [\<lparr>mkey = str ''churnMonthly'', mlabel = str ''Monthly Churn'',
       userField = p (str ''churnRate''), unit = str ''%'', lowerBetter = True\<rparr>,
      \<lparr>mkey = str ''cac'', mlabel = str ''CAC'',
       userField = p (str ''cac''), unit = [8364], lowerBetter = True\<rparr>,
      \<lparr>mkey = str ''ltv'', mlabel = str ''LTV'',
       userField = p (str ''ltv''), unit = [8364], lowerBetter = False\<rparr>,
      \<lparr>mkey = str ''salesCycleDays'', mlabel = str ''Sales Cycle'',
       userField = p (str ''salesCycle''), unit = str ''days'', lowerBetter = True\<rparr>,
      \<lparr>mkey = str ''avgDealSize'', mlabel = str ''Avg Deal Size'',
       userField = p (str ''avgDealSize''), unit = [8364], lowerBetter = False\<rparr>,
      \<lparr>mkey = str ''winRate'', mlabel = str ''Win Rate'',
       userField = p (str ''winRate''), unit = str ''%'', lowerBetter = False\<rparr>,
      \<lparr>mkey = str ''netRevenueRetention'', mlabel = str ''NRR'',
       userField = p (str ''nrr''), unit = str ''%'', lowerBetter = False\<rparr>,
      \<lparr>mkey = str ''grossMargin'', mlabel = str ''Gross Margin'',
       userField = None, unit = str ''%'', lowerBetter = False\<rparr>]"

text \<open>
  The references: the table's value, or one derived from the median. The literals
  \<open>0.5\<close> and \<open>2\<close> are doubles; the literal \<open>0.3\<close> is the double nearest to 3/10.
\<close>

definition goodVal :: "bool \<Rightarrow> bm_entry \<Rightarrow> real \<Rightarrow> real" where
  "goodVal lb e med =
     (case good e of Some g \<Rightarrow> g | None \<Rightarrow> if lb then dbl (med * 0.5) else dbl (med * 2))"

definition badVal :: "bool \<Rightarrow> bm_entry \<Rightarrow> real \<Rightarrow> real" where
  "badVal lb e med =
     (case bad e of
        Some b \<Rightarrow> b
      | None \<Rightarrow> if lb then dbl (med * 2) else dbl (med * dbl (3 / 10)))"

text \<open>
  \<open>normalize\<close> of the radar series, for a metric with direction \<open>lb\<close> and references
  \<open>g\<close> and \<open>b\<close>.
\<close>

definition normalize :: "bool \<Rightarrow> real \<Rightarrow> real \<Rightarrow> real \<Rightarrow> int" where
  "normalize lb g b val =
     (if lb then
        (if val \<le> g then 100
         else if val \<ge> b then 0
         else js_round (dbl (dbl (100 * dbl (b - val)) / dbl (b - g))))
      else
        (if val \<ge> g then 100
         else if val \<le> b then 0
         else js_round (dbl (dbl (100 * dbl (val - b)) / dbl (g - b)))))"

text \<open>\<open>normForBar\<close>: the same on a value that may be \<open>null\<close>.\<close>

definition normForBar :: "bool \<Rightarrow> real \<Rightarrow> real \<Rightarrow> real option \<Rightarrow> int option" where
  "normForBar lb g b v =
     (case v of
        None \<Rightarrow> None
      | Some val \<Rightarrow>
          (if lb then
             (if val \<le> g then Some 100
              else if val \<ge> b then Some 0
              else Some (js_round (dbl (dbl (100 * dbl (b - val)) / dbl (b - g)))))
           else
             (if val \<ge> g then Some 100
              else if val \<le> b then Some 0
              else Some (js_round (dbl (dbl (100 * dbl (val - b)) / dbl (g - b)))))))"

text \<open>The health score of the dashboard, with its final clamp.\<close>

definition healthScore :: "bool \<Rightarrow> real \<Rightarrow> real \<Rightarrow> real \<Rightarrow> int" where
  "healthScore lb g b userVal =
     max 0 (min 100
       (if lb then
          (if userVal \<le> g then 100
           else if userVal \<ge> b then 0
           else js_round (dbl (dbl (100 * dbl (b - userVal)) / dbl (b - g))))
        else
          (if userVal \<ge> g then 100
           else if userVal \<le> b then 0
           else js_round (dbl (dbl (100 * dbl (userVal - b)) / dbl (g - b))))))"

text \<open>The arrays that the loop of \<open>buildChartData\<close> fills.\<close>

record chart_arrays =
  radarLabels :: "jsstring list"
  radarUser :: "int list"
  radarMedian :: "int list"
  radarGood :: "int list"
  barLabels :: "jsstring list"
  barUser :: "int option list"
  barMedian :: "int option list"
  barGood :: "int list"
  barUnits :: "jsstring list"
  barRawUser :: "real option list"
  barRawMedian :: "real list"

definition no_arrays :: chart_arrays where
  "no_arrays =
     \<lparr>radarLabels = [], radarUser = [], radarMedian = [], radarGood = [],
      barLabels = [], barUser = [], barMedian = [], barGood = [], barUnits = [],
      barRawUser = [], barRawMedian = []\<rparr>"

text \<open>
  The median of the table entry of a metric, when the entry exists and its median is
  neither \<open>null\<close> nor missing; otherwise the loop continues with the next metric.
\<close>

definition tracked :: "(jsstring \<Rightarrow> bm_entry option) \<Rightarrow> metric_def \<Rightarrow> (bm_entry \<times> real) option" where
  "tracked bm m =
     (case bm (mkey m) of
        None \<Rightarrow> None
      | Some e \<Rightarrow> (case median e of None \<Rightarrow> None | Some med \<Rightarrow> Some (e, med)))"

text \<open>One round of the loop: the pushes for the metric \<open>m\<close>.\<close>

definition chart_step ::
  "(jsstring \<Rightarrow> bm_entry option) \<Rightarrow> chart_arrays \<Rightarrow> metric_def \<Rightarrow> chart_arrays" where
  "chart_step bm a m =
     (case tracked bm m of
        None \<Rightarrow> a
      | Some (e, med) \<Rightarrow>
          (let userVal = num (userField m);
               g = goodVal (lowerBetter m) e med;
               b = badVal (lowerBetter m) e med;
               a1 = a\<lparr>barLabels := barLabels a @ [mlabel m],
                      barUnits := barUnits a @ [unit m],
                      barUser := barUser a @ [normForBar (lowerBetter m) g b userVal],
                      barMedian := barMedian a @ [normForBar (lowerBetter m) g b (Some med)],
                      barGood := barGood a @ [100],
                      barRawUser := barRawUser a @ [userVal],
                      barRawMedian := barRawMedian a @ [med]\<rparr>
           in (case userVal of
                 None \<Rightarrow> a1
               | Some u \<Rightarrow>
                   a1\<lparr>radarLabels := radarLabels a1 @ [mlabel m],
                      radarUser := radarUser a1 @ [max 0 (min 100 (normalize (lowerBetter m) g b u))],
                      radarMedian := radarMedian a1
                                     @ [max 0 (min 100 (normalize (lowerBetter m) g b med))],
                      radarGood := radarGood a1 @ [100]\<rparr>)))"

record chart_data =
  stageLabel :: "jsstring option"
  arrays :: chart_arrays

text \<open>
  \<open>buildChartData\<close>: \<open>None\<close> is the result \<open>null\<close>. The nested object that is
  returned holds exactly the eleven arrays and the stage label.
\<close>

definition buildChartData :: "report_profile \<Rightarrow> stage_data option \<Rightarrow> chart_data option" where
  "buildChartData p stageData =
     (case stageData of
        None \<Rightarrow> None
      | Some sd \<Rightarrow>
          (case benchmarks sd of
             None \<Rightarrow> None
           | Some bm \<Rightarrow>
               (let a = foldl (chart_step bm) no_arrays (metricDefs p)
                in if length (barLabels a) = 0 then None
                   else Some \<lparr>stageLabel = stage_label sd, arrays = a\<rparr>)))"

section \<open>Auxiliary definitions and concrete inputs\<close>

text \<open>
  Notions that only the proofs use, and the concrete sessions and profiles at which the
  theorems are instantiated.
\<close>

subsection \<open>A company-phase session\<close>

definition company_profile :: profile where
  "company_profile = map_of
     [(str ''businessModel'', PStr (str ''SaaS'')), (str ''stage'', PStr (str ''seed'')),
      (str ''revenue'', PStr (str ''10000'')), (str ''teamSize'', PStr (str ''8'')),
      (str ''funding'', PStr (str ''bootstrapped''))]"

definition company_session :: "int \<Rightarrow> session" where
  "company_session n =
     \<lparr>currentPhase = str ''company'', phaseTurns = n, totalTurns = 5, welcomeDone = True,
      diagnosisPresented = False, diagnosisValidated = False, transcript = [],
      profile = company_profile, scrapedSummary = []\<rparr>"

subsection \<open>The merge, field by field\<close>

text \<open>
  What one update entry with value \<open>v\<close> does to the field it names, \<open>x\<close> being the
  field's content before (\<open>None\<close> when the profile does not own the name).
\<close>

definition merge_value :: "pval option \<Rightarrow> uval \<Rightarrow> pval option" where
  "merge_value x v =
     (case x of
        None \<Rightarrow> None
      | Some (PList old) \<Rightarrow>
          (if v = One INull then x
           else Some (PList (set_spread (old @ filter accepted (items_of v)))))
      | Some (PStr old) \<Rightarrow>
          (case v of
             One (IStr s) \<Rightarrow> if trim s \<noteq> [] then Some (PStr (trim s)) else x
           | _ \<Rightarrow> x))"

definition field_step :: "jsstring \<Rightarrow> pval option \<Rightarrow> jsstring \<times> uval \<Rightarrow> pval option" where
  "field_step k x kv = (if fst kv = k then merge_value x (snd kv) else x)"

text \<open>
  The shape of every function on field contents that a run of updates can induce: a
  missing field stays missing, a string is kept or replaced by a fixed one, a list is
  kept or united with a fixed list of items.
\<close>

definition absorbing :: "(pval option \<Rightarrow> pval option) \<Rightarrow> bool" where
  "absorbing g =
     (g None = None
      \<and> ((\<forall>s. g (Some (PStr s)) = Some (PStr s)) \<or> (\<exists>t. \<forall>s. g (Some (PStr s)) = Some (PStr t)))
      \<and> ((\<forall>l. g (Some (PList l)) = Some (PList l))
          \<or> (\<exists>a. \<forall>l. g (Some (PList l)) = Some (PList (set_spread (l @ a))))))"

subsection \<open>Inputs for the merge, the options and the confidence score\<close>

definition fresh_problems :: profile where
  "fresh_problems =
     map_of [(str ''diagnosedProblems'', PList []), (str ''userPriority'', PStr [])]"

definition one_valid_option :: "raw_option list" where
  "one_valid_option =
     [Entry (FStr (str ''saas'')) (FStr (str ''SaaS subscription'')), Falsy,
      Entry (FStr []) (FStr (str ''no key'')), Entry FOther (FStr (str ''x''))]"

text \<open>
  The shape \<open>createSession\<close> gives a profile and the merge keeps: the fields scored as
  strings hold no array.
\<close>

definition holds_list :: "pval option \<Rightarrow> bool" where
  "holds_list v = (case v of Some (PList xs) \<Rightarrow> True | _ \<Rightarrow> False)"

definition scalar_shaped :: "profile \<Rightarrow> bool" where
  "scalar_shaped p = list_all (\<lambda>k. \<not> holds_list (p k)) (core_fields @ depth_fields)"

definition company_profile_crm :: profile where
  "company_profile_crm = company_profile(str ''crm'' \<mapsto> PStr (str ''HubSpot''))"

subsection \<open>Inputs for the feasibility checks and the charts\<close>

text \<open>
  The profile of the cash-runway scenario, with the euro sign as the code unit 8364, and
  a profile that states a sales motion and no team size.
\<close>

definition boot_profile :: "jsstring \<Rightarrow> report_profile" where
  "boot_profile team = map_of
     [(str ''funding'', str ''bootstrapped''), (str ''revenue'', [8364] @ str ''2,000''),
      (str ''teamSize'', team)]"

definition outbound_profile :: report_profile where
  "outbound_profile = map_of [(str ''salesMotion'', str ''outbound'')]"

definition churn_profile_of :: "string \<Rightarrow> report_profile" where
  "churn_profile_of c = map_of
     [(str ''churnRate'', str c), (str ''mainBottleneck'', str ''lead generation'')]"

definition zero_median :: bm_entry where
  "zero_median = \<lparr>median = Some 0, good = None, bad = None\<rparr>"




definition sample_table :: "jsstring \<Rightarrow> bm_entry option" where
  "sample_table = map_of
     [(str ''churnMonthly'', \<lparr>median = Some 5, good = Some 2, bad = Some 8\<rparr>),
      (str ''cac'', \<lparr>median = None, good = Some 100, bad = None\<rparr>),
      (str ''winRate'', \<lparr>median = Some 20, good = None, bad = None\<rparr>)]"

definition sample_stage :: stage_data where
  "sample_stage = \<lparr>stage_label = Some (str ''Seed''), benchmarks = Some sample_table\<rparr>"

definition churn_profile :: report_profile where
  "churn_profile = map_of [(str ''churnRate'', str ''5%'')]"

text \<open>
  The number of metrics whose table entry has a median, and the seven arrays of the bar
  chart having one common length.
\<close>

definition tracked_count :: "(jsstring \<Rightarrow> bm_entry option) \<Rightarrow> metric_def list \<Rightarrow> nat" where
  "tracked_count bm ms = length (filter (\<lambda>m. tracked bm m \<noteq> None) ms)"

definition bar_lengths :: "chart_arrays \<Rightarrow> nat \<Rightarrow> bool" where
  "bar_lengths a n =
     (length (barLabels a) = n \<and> length (barUser a) = n \<and> length (barMedian a) = n
      \<and> length (barGood a) = n \<and> length (barUnits a) = n \<and> length (barRawUser a) = n
      \<and> length (barRawMedian a) = n)"

section \<open>Properties of stage resolution\<close>

lemma resolveStage_pre_seed_idea:
  "resolveStage (Some (str ''pre_seed_idea'')) = str ''pre_seed_idea''"
  by (simp add: resolveStage_def str_def toLowerCase_def lower_unit_def is_lower_az_def
      is_digit_def is_space_def stage_aliases_def)

lemma resolveStage_seed_startup:
  "resolveStage (Some (str ''seed_startup'')) = str ''seed_startup''"
  by (simp add: resolveStage_def str_def toLowerCase_def lower_unit_def is_lower_az_def
      is_digit_def is_space_def stage_aliases_def)

lemma resolveStage_expansion_enterprise:
  "resolveStage (Some (str ''expansion_enterprise'')) = str ''expansion_enterprise''"
  by (simp add: resolveStage_def str_def toLowerCase_def lower_unit_def is_lower_az_def
      is_digit_def is_space_def stage_aliases_def)

lemma resolveStage_early_scale:
  "resolveStage (Some (str ''early_scale'')) = str ''seed_startup''"
  by (simp add: resolveStage_def str_def toLowerCase_def lower_unit_def is_lower_az_def
      is_digit_def is_space_def stage_aliases_def)

text \<open>
  C1. A raw stage text that is one of the four canonical identifiers should come back
  unchanged. Three of them do. \<open>early_scale\<close> does not: lower-cased and stripped of the
  underscore it reads \<open>earlyscale\<close>, which contains the alias \<open>early\<close> of
  \<open>seed_startup\<close>, and the alias loop returns before the test for canonical
  identifiers is reached.
\<close>

theorem resolveStage_canonical:
  "resolveStage (Some (str ''pre_seed_idea'')) = str ''pre_seed_idea''
   \<and> resolveStage (Some (str ''seed_startup'')) = str ''seed_startup''
   \<and> resolveStage (Some (str ''expansion_enterprise'')) = str ''expansion_enterprise''
   \<and> resolveStage (Some (str ''early_scale'')) = str ''seed_startup''
   \<and> str ''early_scale'' \<noteq> str ''seed_startup''"
  using resolveStage_pre_seed_idea resolveStage_seed_startup
    resolveStage_expansion_enterprise resolveStage_early_scale
  by (simp add: str_def)

section \<open>Properties of the phase engine\<close>

lemma PHASES_company:
  "PHASES (str ''company'') =
     Some \<lparr>display = str ''company'', next_phase = Some (str ''gtm''), minTurns = 4,
           checklist = map str [''businessModel'', ''stage'', ''revenue'', ''teamSize'', ''funding'']\<rparr>"
  by (simp add: PHASES_def str_def)

lemma phase_of_company:
  "phase_of (str ''company'') =
     Some (Own \<lparr>display = str ''company'', next_phase = Some (str ''gtm''), minTurns = 4,
           checklist = map str [''businessModel'', ''stage'', ''revenue'', ''teamSize'', ''funding'']\<rparr>)"
  by (simp add: phase_of_def PHASES_company)

lemma company_not_special:
  "str ''company'' \<noteq> str ''welcome''" "str ''company'' \<noteq> str ''pre_finish''"
  "str ''company'' \<noteq> str ''diagnosis''"
  by (simp_all add: str_def)

text \<open>
  C4. In the company phase (checklist businessModel, stage, revenue, teamSize, funding;
  minimum 4 turns) with all five checklist fields filled: while the in-phase turn
  counter is below 4, and so at 3, the guard is false and the phase check leaves the
  session as it is; from 4 on the guard holds, and advancing sets the phase to gtm and
  the in-phase turn counter to 0.
\<close>

theorem company_phase_turn_gate:
  assumes "currentPhase S = str ''company''"
    and "list_all (\<lambda>k. filled (profile S k))
           (map str [''businessModel'', ''stage'', ''revenue'', ''teamSize'', ''funding''])"
  shows "(phaseTurns S < 4 \<longrightarrow> \<not> canAdvancePhase S \<and> phase_check S = S)
       \<and> (4 \<le> phaseTurns S \<longrightarrow>
            canAdvancePhase S
          \<and> doAdvance S = (True, S\<lparr>currentPhase := str ''gtm'', phaseTurns := 0\<rparr>)
          \<and> phase_check S = S\<lparr>currentPhase := str ''gtm'', phaseTurns := 0\<rparr>)"
proof -
  have gate: "phaseTurns S < 4 \<Longrightarrow> \<not> canAdvancePhase S"
    using assms(1) by (simp add: canAdvancePhase_def phase_of_company)
  have pass: "4 \<le> phaseTurns S \<Longrightarrow> canAdvancePhase S"
    using assms by (simp add: canAdvancePhase_def phase_of_company company_not_special)
  have adv: "doAdvance S = (True, S\<lparr>currentPhase := str ''gtm'', phaseTurns := 0\<rparr>)"
    using assms(1) by (simp add: doAdvance_def phase_of_company)
  show ?thesis using gate pass adv by (simp add: phase_check_def)
qed

lemma company_profile_filled:
  "list_all (\<lambda>k. filled (company_profile k))
           (map str [''businessModel'', ''stage'', ''revenue'', ''teamSize'', ''funding''])"
  by (simp add: company_profile_def filled_def str_def trim_def is_space_def)

theorem company_phase_turn_gate_witness:
  "\<not> canAdvancePhase (company_session 3)
   \<and> phase_check (company_session 3) = company_session 3
   \<and> canAdvancePhase (company_session 4)
   \<and> currentPhase (phase_check (company_session 4)) = str ''gtm''
   \<and> phaseTurns (phase_check (company_session 4)) = 0"
  using company_phase_turn_gate [of "company_session 3"]
    company_phase_turn_gate [of "company_session 4"] company_profile_filled
  by (simp add: company_session_def)

text \<open>
  A phase name that only \<open>Object.prototype\<close> knows passes the guard, and advancing
  from it changes nothing; a name that nothing knows fails the guard.
\<close>

lemma inherited_phase_name:
  "canAdvancePhase (S\<lparr>currentPhase := str ''constructor''\<rparr>)
   \<and> doAdvance (S\<lparr>currentPhase := str ''constructor''\<rparr>)
       = (False, S\<lparr>currentPhase := str ''constructor''\<rparr>)
   \<and> \<not> canAdvancePhase (S\<lparr>currentPhase := str ''finish''\<rparr>)"
  by (simp add: canAdvancePhase_def doAdvance_def phase_of_def PHASES_def inherited_names_def
      str_def)

section \<open>Properties of the profile merge\<close>

lemma apply_update_eq: "apply_update p (k, v) = p(k := merge_value (p k) v)"
  by (auto simp: apply_update_def merge_value_def fun_eq_iff
      split: option.splits pval.splits uval.splits item.splits)

lemma merge_updates_at: "merge_updates p us k = foldl (field_step k) (p k) us"
  unfolding merge_updates_def
proof (induction us arbitrary: p)
  case Nil
  show ?case by simp
next
  case (Cons u us)
  obtain k' v where u: "u = (k', v)" by (cases u)
  show ?case
    by (simp add: Cons.IH u apply_update_eq field_step_def)
qed

lemma set_fold_add: "set (foldl set_add acc xs) = set acc \<union> set xs"
  by (induction xs arbitrary: acc) (auto simp: set_add_def)

lemma fold_add_known: "set xs \<subseteq> set acc \<Longrightarrow> foldl set_add acc xs = acc"
  by (induction xs arbitrary: acc) (auto simp: set_add_def)

lemma fold_add_distinct: "distinct acc \<Longrightarrow> distinct (foldl set_add acc xs)"
  by (induction xs arbitrary: acc) (auto simp: set_add_def)

lemma fold_add_fresh: "distinct (acc @ r) \<Longrightarrow> foldl set_add acc r = acc @ r"
  by (induction r arbitrary: acc) (auto simp: set_add_def)

lemma set_spread_distinct: "distinct (set_spread xs)"
  by (simp add: set_spread_def fold_add_distinct)

lemma set_spread_fixed: "distinct r \<Longrightarrow> set_spread r = r"
  using fold_add_fresh [of "[]" r] by (simp add: set_spread_def)

lemma set_spread_absorb: "set_spread (set_spread xs @ ys) = set_spread (xs @ ys)"
proof -
  have "set_spread (set_spread xs) = set_spread xs"
    by (rule set_spread_fixed) (rule set_spread_distinct)
  then show ?thesis by (simp add: set_spread_def)
qed

lemma set_spread_twice: "set_spread (set_spread (l @ a) @ a) = set_spread (l @ a)"
proof -
  have "set_spread (set_spread (l @ a) @ a) = set_spread ((l @ a) @ a)"
    by (rule set_spread_absorb)
  also have "\<dots> = foldl set_add (set_spread (l @ a)) a"
    by (simp add: set_spread_def)
  also have "\<dots> = set_spread (l @ a)"
    by (rule fold_add_known) (simp add: set_spread_def set_fold_add)
  finally show ?thesis .
qed

lemma absorbing_id: "absorbing (\<lambda>x. x)"
  by (simp add: absorbing_def)

lemma absorbing_merge_value: "absorbing (\<lambda>x. merge_value x v)"
proof -
  have str_part: "(\<forall>s. merge_value (Some (PStr s)) v = Some (PStr s))
      \<or> (\<exists>t. \<forall>s. merge_value (Some (PStr s)) v = Some (PStr t))"
    by (auto simp: merge_value_def split: uval.splits item.splits)
  have list_part: "(\<forall>l. merge_value (Some (PList l)) v = Some (PList l))
      \<or> (\<exists>a. \<forall>l. merge_value (Some (PList l)) v = Some (PList (set_spread (l @ a))))"
    by (auto simp: merge_value_def)
  show ?thesis
    using str_part list_part by (simp add: absorbing_def merge_value_def)
qed

lemma absorbing_comp:
  assumes "absorbing g" and "absorbing h"
  shows "absorbing (\<lambda>x. h (g x))"
proof -
  have none: "h (g None) = None"
    using assms by (simp add: absorbing_def)
  have strs: "(\<forall>s. h (g (Some (PStr s))) = Some (PStr s))
      \<or> (\<exists>t. \<forall>s. h (g (Some (PStr s))) = Some (PStr t))"
    using assms unfolding absorbing_def by metis
  have lists: "(\<forall>l. h (g (Some (PList l))) = Some (PList l))
      \<or> (\<exists>a. \<forall>l. h (g (Some (PList l))) = Some (PList (set_spread (l @ a))))"
  proof -
    consider (gid) "\<forall>l. g (Some (PList l)) = Some (PList l)"
      | (gapp) a where "\<forall>l. g (Some (PList l)) = Some (PList (set_spread (l @ a)))"
      using assms(1) unfolding absorbing_def by blast
    then show ?thesis
    proof cases
      case gid
      then show ?thesis using assms(2) unfolding absorbing_def by simp
    next
      case gapp
      consider (hid) "\<forall>l. h (Some (PList l)) = Some (PList l)"
        | (happ) b where "\<forall>l. h (Some (PList l)) = Some (PList (set_spread (l @ b)))"
        using assms(2) unfolding absorbing_def by blast
      then show ?thesis
      proof cases
        case hid
        with gapp show ?thesis by auto
      next
        case happ
        have "\<forall>l. h (g (Some (PList l))) = Some (PList (set_spread (l @ (a @ b))))"
          using gapp happ set_spread_absorb [of _ b] by simp
        then show ?thesis by blast
      qed
    qed
  qed
  show ?thesis using none strs lists by (simp add: absorbing_def)
qed

lemma absorbing_fold: "absorbing (\<lambda>x. foldl (field_step k) x us)"
proof (induction us rule: rev_induct)
  case Nil
  show ?case by (simp add: absorbing_id)
next
  case (snoc u us)
  have step: "absorbing (\<lambda>x. field_step k x u)"
  proof (cases "fst u = k")
    case True
    then show ?thesis using absorbing_merge_value [of "snd u"] by (simp add: field_step_def)
  next
    case False
    then show ?thesis using absorbing_id by (simp add: field_step_def)
  qed
  show ?case
    using absorbing_comp [OF snoc.IH step] by simp
qed

lemma absorbing_idem: "absorbing g \<Longrightarrow> g (g x) = g x"
proof -
  assume a: "absorbing g"
  show ?thesis
  proof (cases x)
    case None
    with a show ?thesis by (simp add: absorbing_def)
  next
    case (Some y)
    show ?thesis
    proof (cases y)
      case (PStr s)
      with a Some show ?thesis unfolding absorbing_def by metis
    next
      case (PList l)
      consider (gid) "\<forall>l. g (Some (PList l)) = Some (PList l)"
        | (gapp) b where "\<forall>l. g (Some (PList l)) = Some (PList (set_spread (l @ b)))"
        using a unfolding absorbing_def by blast
      then show ?thesis
      proof cases
        case gid
        with Some PList show ?thesis by simp
      next
        case gapp
        with Some PList show ?thesis by (simp add: set_spread_twice)
      qed
    qed
  qed
qed

text \<open>
  C2. Applying the same update map twice gives the same profile as applying it once,
  whatever the profile and the update map: string fields and list fields alike.
\<close>

theorem merge_updates_idempotent:
  "merge_updates (merge_updates p us) us = merge_updates p us"
proof
  fix k
  show "merge_updates (merge_updates p us) us k = merge_updates p us k"
    using absorbing_idem [OF absorbing_fold [of k us], of "p k"]
    by (simp add: merge_updates_at)
qed

lemma churn_trimmed: "trim (str '' churn '') = str ''churn''"
  by (simp add: trim_def is_space_def str_def)

lemma scalar_update_trimmed:
  "merge_updates fresh_problems [(str ''userPriority'', One (IStr (str '' churn '')))]
     (str ''userPriority'') = Some (PStr (str ''churn''))"
  by (simp add: merge_updates_def apply_update_def fresh_problems_def set_spread_def set_add_def
      accepted_def items_of_def trim_def is_space_def str_def)

lemma list_update_untrimmed:
  "merge_updates fresh_problems [(str ''diagnosedProblems'', Many [IStr (str '' churn '')])]
     (str ''diagnosedProblems'') = Some (PList [IStr (str '' churn '')])"
  by (simp add: merge_updates_def apply_update_def fresh_problems_def set_spread_def set_add_def
      accepted_def items_of_def trim_def is_space_def str_def)

text \<open>
  C5. An item accepted into a list field should be stored trimmed. The list branch uses
  \<open>trim\<close> only to test the item and stores the item as supplied: the update
  \<open>{diagnosedProblems: [" churn "]}\<close> on a fresh profile stores \<open>" churn "\<close> with its
  blanks, where the string branch of the same loop stores the trimmed text.
\<close>

theorem merge_list_item_not_trimmed:
  "merge_updates fresh_problems [(str ''diagnosedProblems'', Many [IStr (str '' churn '')])]
     (str ''diagnosedProblems'') = Some (PList [IStr (str '' churn '')])
   \<and> trim (str '' churn '') = str ''churn''
   \<and> str '' churn '' \<noteq> str ''churn''
   \<and> merge_updates fresh_problems [(str ''userPriority'', One (IStr (str '' churn '')))]
        (str ''userPriority'') = Some (PStr (str ''churn''))"
  using churn_trimmed scalar_update_trimmed list_update_untrimmed
  by (simp add: str_def)

section \<open>Properties of the options validation\<close>

lemma getDefaults_bounds:
  "2 \<le> length (getDefaults S) \<and> length (getDefaults S) \<le> 6
   \<and> list_all (\<lambda>b. length (key b) \<le> 80 \<and> length (label b) \<le> 120) (getDefaults S)"
  by (simp add: getDefaults_def str_def)

lemma clip_bounds:
  "list_all (\<lambda>b. length (key b) \<le> 80 \<and> length (label b) \<le> 120) (take n (map clip_option xs))"
  by (induction xs arbitrary: n)
     (auto simp: clip_option_def take_Cons' list_all_iff split: raw_option.splits jfield.splits nat.splits)

text \<open>
  C9. Whatever the raw option list, the sanitized list has between 2 and 6 entries, with
  keys of at most 80 and labels of at most 120 code units; a raw value that is no array,
  an empty array, or an array with fewer than 2 valid entries is replaced by the default
  set of the current phase.
\<close>

theorem sanitizeOptions_bounds:
  "2 \<le> length (sanitizeOptions raw S) \<and> length (sanitizeOptions raw S) \<le> 6
   \<and> list_all (\<lambda>b. length (key b) \<le> 80 \<and> length (label b) \<le> 120) (sanitizeOptions raw S)
   \<and> sanitizeOptions NotArray S = getDefaults S
   \<and> sanitizeOptions (Arr []) S = getDefaults S
   \<and> (length (filter valid_option xs) < 2 \<longrightarrow> sanitizeOptions (Arr xs) S = getDefaults S)"
proof -
  have few: "length (filter valid_option xs) < 2 \<Longrightarrow> sanitizeOptions (Arr xs) S = getDefaults S"
    by (simp add: sanitizeOptions_def Let_def)
  have fixed: "sanitizeOptions NotArray S = getDefaults S" "sanitizeOptions (Arr []) S = getDefaults S"
    by (simp_all add: sanitizeOptions_def)
  have bounds: "2 \<le> length (sanitizeOptions raw S) \<and> length (sanitizeOptions raw S) \<le> 6
   \<and> list_all (\<lambda>b. length (key b) \<le> 80 \<and> length (label b) \<le> 120) (sanitizeOptions raw S)"
  proof (cases raw)
    case NotArray
    then show ?thesis using getDefaults_bounds [of S] by (simp add: sanitizeOptions_def)
  next
    case (Arr ys)
    let ?valid = "take 6 (map clip_option (filter valid_option ys))"
    show ?thesis
    proof (cases "ys \<noteq> [] \<and> 2 \<le> length ?valid")
      case True
      then have r: "sanitizeOptions raw S = ?valid"
        using Arr by (simp add: sanitizeOptions_def Let_def)
      show ?thesis using True r clip_bounds [of 6 "filter valid_option ys"] by simp
    next
      case False
      then have r: "sanitizeOptions raw S = getDefaults S"
        using Arr by (auto simp: sanitizeOptions_def Let_def)
      show ?thesis using r getDefaults_bounds [of S] by simp
    qed
  qed
  show ?thesis using few fixed bounds by blast
qed

lemma one_valid_option_count: "length (filter valid_option one_valid_option) < 2"
  by (simp add: one_valid_option_def valid_option_def str_def)

theorem sanitizeOptions_bounds_witness:
  "length (filter valid_option one_valid_option) < 2
   \<and> sanitizeOptions (Arr one_valid_option) (company_session 1) =
       [\<lparr>key = str ''continue'', label = str ''Continue '' @ [8594]\<rparr>,
        \<lparr>key = str ''explain'', label = str ''Let me explain in detail''\<rparr>]"
  using sanitizeOptions_bounds [of "Arr one_valid_option" "company_session 1" one_valid_option]
    one_valid_option_count
  by (simp add: getDefaults_def company_session_def str_def)

section \<open>Properties of the confidence score\<close>

lemma str_present_scalar: "\<not> holds_list v \<Longrightarrow> str_present v = Inr (filled v)"
  by (auto simp: holds_list_def str_present_def filled_def split: option.splits pval.splits)

lemma add_present_scalar:
  "list_all (\<lambda>k. \<not> holds_list (p k)) ks \<Longrightarrow>
   add_present p w ks s = Inr (s + w * int (length (filter (\<lambda>k. filled (p k)) ks)))"
  by (induction ks arbitrary: s) (simp_all add: str_present_scalar algebra_simps)

lemma add_milestones_count:
  "add_milestones p ks s = s + 6 * int (length (filter (\<lambda>k. filled (p k)) ks))"
  by (induction ks arbitrary: s) simp_all

lemma filled_count_mono:
  "\<forall>k. filled (p k) \<longrightarrow> filled (q k) \<Longrightarrow>
   length (filter (\<lambda>k. filled (p k)) ks) \<le> length (filter (\<lambda>k. filled (q k)) ks)"
  by (induction ks) auto

lemma js_round_mono: "x \<le> y \<Longrightarrow> js_round x \<le> js_round y"
  by (simp add: js_round_def floor_mono)

lemma calcConf_scalar:
  assumes "scalar_shaped (profile S)"
  shows "calcConf S = Inr (min 100 (js_round (real_of_int
            (4 * int (length (filter (\<lambda>k. filled (profile S k)) core_fields))
           + 2 * int (length (filter (\<lambda>k. filled (profile S k)) depth_fields))
           + 6 * int (length (filter (\<lambda>k. filled (profile S k)) milestone_fields))) / 90 * 100)))"
proof -
  have c: "list_all (\<lambda>k. \<not> holds_list (profile S k)) core_fields"
    and d: "list_all (\<lambda>k. \<not> holds_list (profile S k)) depth_fields"
    using assms by (simp_all add: scalar_shaped_def)
  show ?thesis
    by (simp add: calcConf_def add_present_scalar [OF c] add_present_scalar [OF d]
        add_milestones_count)
qed

text \<open>
  C3. If every field present in one profile is present in another, the confidence score
  of the second is at least that of the first. The profiles have the shape of
  \<open>createSession\<close> (no array in a field scored as a string), on which \<open>calcConf\<close>
  returns a score and does not throw.
\<close>

theorem calcConf_monotone:
  assumes sub: "\<forall>k. filled (profile S k) \<longrightarrow> filled (profile S' k)"
    and shape: "scalar_shaped (profile S)" and shape': "scalar_shaped (profile S')"
  shows "\<exists>a b. calcConf S = Inr a \<and> calcConf S' = Inr b \<and> a \<le> b"
proof -
  let ?n = "\<lambda>T ks. int (length (filter (\<lambda>k. filled (profile T k)) ks))"
  let ?score = "\<lambda>T. 4 * ?n T core_fields + 2 * ?n T depth_fields + 6 * ?n T milestone_fields"
  have "?n S ks \<le> ?n S' ks" for ks
    using filled_count_mono [OF sub, of ks] by simp
  then have "?score S \<le> ?score S'"
    by (meson add_mono mult_left_mono zero_le_numeral)
  then have "real_of_int (?score S) / 90 * 100 \<le> real_of_int (?score S') / 90 * 100"
    by (simp add: divide_right_mono)
  then have "min 100 (js_round (real_of_int (?score S) / 90 * 100))
           \<le> min 100 (js_round (real_of_int (?score S') / 90 * 100))"
    using js_round_mono min.mono by blast
  then show ?thesis
    using calcConf_scalar [OF shape] calcConf_scalar [OF shape'] by simp
qed

lemma company_profile_sub:
  "\<forall>k. filled (company_profile k) \<longrightarrow> filled (company_profile_crm k)"
  by (simp add: company_profile_crm_def filled_def str_def trim_def is_space_def)

lemma company_profile_shaped:
  "scalar_shaped company_profile" "scalar_shaped company_profile_crm"
  by (simp_all add: scalar_shaped_def holds_list_def company_profile_crm_def company_profile_def
      core_fields_def depth_fields_def str_def)

lemma company_conf: "calcConf (company_session 4) = Inr 22"
  by (simp add: calcConf_def company_session_def company_profile_def core_fields_def
      depth_fields_def milestone_fields_def str_present_def filled_def str_def trim_def
      is_space_def js_round_def)

lemma company_crm_conf:
  "calcConf ((company_session 4)\<lparr>profile := company_profile_crm\<rparr>) = Inr 24"
  by (simp add: calcConf_def company_session_def company_profile_def company_profile_crm_def
      core_fields_def
      depth_fields_def milestone_fields_def str_present_def filled_def str_def trim_def
      is_space_def js_round_def)

theorem calcConf_monotone_witness:
  "scalar_shaped (profile (company_session 4))
   \<and> scalar_shaped (profile ((company_session 4)\<lparr>profile := company_profile_crm\<rparr>))
   \<and> calcConf (company_session 4) = Inr 22
   \<and> calcConf ((company_session 4)\<lparr>profile := company_profile_crm\<rparr>) = Inr 24
   \<and> (\<exists>a b. calcConf (company_session 4) = Inr a
           \<and> calcConf ((company_session 4)\<lparr>profile := company_profile_crm\<rparr>) = Inr b
           \<and> a \<le> b)"
proof -
  have h1: "\<forall>k. filled (profile (company_session 4) k)
          \<longrightarrow> filled (profile ((company_session 4)\<lparr>profile := company_profile_crm\<rparr>) k)"
    using company_profile_sub by (simp add: company_session_def)
  have h2: "scalar_shaped (profile (company_session 4))"
    using company_profile_shaped by (simp add: company_session_def)
  have h3: "scalar_shaped (profile ((company_session 4)\<lparr>profile := company_profile_crm\<rparr>))"
    using company_profile_shaped by simp
  show ?thesis
    using calcConf_monotone [OF h1 h2 h3] h1 h2 h3 company_conf company_crm_conf by blast
qed

section \<open>Properties of the rounding to doubles\<close>

lemma dbl_up_numeral:
  "dbl_up (numeral k) a =
     (if 2 ^ 53 \<le> a then 2 * dbl_up (pred_numeral k) (a / 2) else real_of_int (round_even a))"
  by (simp add: numeral_eq_Suc)

lemma dbl_down_numeral:
  "dbl_down (numeral k) a =
     (if a < 2 ^ 52 then dbl_down (pred_numeral k) (2 * a) / 2 else real_of_int (round_even a))"
  by (simp add: numeral_eq_Suc)

text \<open>The definitions that evaluate \<open>dbl\<close> on a concrete number.\<close>

lemmas dbl_eval = dbl_def dbl_pos_def dbl_up_numeral dbl_down_numeral round_even_def Let_def

lemma dbl_known_values:
  "dbl 5 = 5" "dbl (3 / 10) = 5404319552844595 / 2 ^ 54" "dbl (20 * dbl (3 / 10)) = 6"
  "dbl (5 + 1 / 10 ^ 19) = 5" "dbl (2 ^ 60 + 1) = 2 ^ 60"
  by (simp_all add: dbl_eval)









section \<open>Properties of the feasibility checks\<close>

text \<open>The definitions that evaluate the string functions on a concrete text.\<close>

lemmas string_eval = str_def toLowerCase_def lower_unit_def is_digit_def is_space_def
  is_lower_az_def truthy_def or_else_def regex_test_def regex_test_i_def pattern_def
  unit_matches_def fold_ascii_def parseInt_digits_def digits_value_def num_test_def

lemma boot_budget: "rule_budget (boot_profile t) = []"
  by (simp add: rule_budget_def boot_profile_def string_eval)

lemma boot_tools: "rule_tools (boot_profile t) sd = []"
  by (simp add: rule_tools_def boot_profile_def string_eval split: option.splits)

lemma boot_team: "rule_team (boot_profile t) = []"
  by (simp add: rule_team_def boot_profile_def string_eval)

lemma boot_founder: "rule_founder (boot_profile t) = []"
  by (simp add: rule_founder_def boot_profile_def string_eval)

lemma boot_churn: "rule_churn (boot_profile t) = []"
  by (simp add: rule_churn_def boot_profile_def string_eval)

lemma boot_runway_8:
  "rule_runway (boot_profile (str ''8'')) =
     [\<lparr>ftype = Risk, fseverity = High, issue = str ''Cash runway concern''\<rparr>]"
  by (simp add: rule_runway_def teamNum_def boot_profile_def string_eval)

lemma boot_runway_2: "rule_runway (boot_profile (str ''2'')) = []"
  by (simp add: rule_runway_def teamNum_def boot_profile_def string_eval)

text \<open>
  C7. For the profile with funding "bootstrapped", a revenue of 2,000 euros and team
  size "8", \<open>runFeasibilityChecks\<close> returns the risk flag "Cash runway concern" (and no
  other flag); with team size "2" it returns no flag. This holds for any stage data.
\<close>

theorem cash_runway_scenario:
  "runFeasibilityChecks (boot_profile (str ''8'')) sd =
     [\<lparr>ftype = Risk, fseverity = High, issue = str ''Cash runway concern''\<rparr>]
   \<and> runFeasibilityChecks (boot_profile (str ''2'')) sd = []"
  by (simp add: runFeasibilityChecks_def boot_budget boot_tools boot_team boot_founder
      boot_churn boot_runway_8 boot_runway_2)

lemma outbound_team:
  "rule_team outbound_profile =
     [\<lparr>ftype = Contradiction, fseverity = Medium,
       issue = str ''Outbound/ABM motion with tiny team''\<rparr>]"
  by (simp add: rule_team_def teamNum_def outbound_profile_def string_eval)

lemma outbound_others:
  "rule_budget outbound_profile = []" "rule_tools outbound_profile sd = []"
  "rule_runway outbound_profile = []" "rule_founder outbound_profile = []"
  "rule_churn outbound_profile = []"
  by (simp_all add: rule_budget_def rule_tools_def rule_runway_def rule_founder_def
      rule_churn_def outbound_profile_def string_eval split: option.splits)

text \<open>
  C6. A rule that compares a parsed number should emit no flag when its source text is
  missing. The team-size rule reads a missing team size as the text "0": a profile that
  states an outbound sales motion and no team size (the field absent, or the empty string
  that \<open>createSession\<close> gives it) gets the flag of the tiny team.
\<close>

lemma outbound_blank_team:
  "runFeasibilityChecks (outbound_profile(str ''teamSize'' \<mapsto> [])) sd =
       [\<lparr>ftype = Contradiction, fseverity = Medium,
         issue = str ''Outbound/ABM motion with tiny team''\<rparr>]"
  by (simp add: runFeasibilityChecks_def rule_budget_def rule_tools_def rule_team_def
      rule_runway_def rule_founder_def rule_churn_def teamNum_def outbound_profile_def
      string_eval split: option.splits)

theorem missing_team_size_fires:
  "outbound_profile (str ''teamSize'') = None
   \<and> runFeasibilityChecks outbound_profile sd =
       [\<lparr>ftype = Contradiction, fseverity = Medium,
         issue = str ''Outbound/ABM motion with tiny team''\<rparr>]
   \<and> runFeasibilityChecks (outbound_profile(str ''teamSize'' \<mapsto> [])) sd =
       [\<lparr>ftype = Contradiction, fseverity = Medium,
         issue = str ''Outbound/ABM motion with tiny team''\<rparr>]"
  using outbound_blank_team [of sd]
  by (simp add: runFeasibilityChecks_def outbound_team outbound_others)
    (simp add: outbound_profile_def str_def)

text \<open>
  A source text without digits, on the other hand, makes every one of these rules emit
  nothing.
\<close>

lemma no_digits_no_flag:
  "filter is_digit (or_else (p (str ''teamSize'')) (str ''0'')) = [] \<Longrightarrow>
     rule_team p = [] \<and> rule_runway p = []"
  "filter is_digit (or_else (p (str ''growthTarget'')) []) = [] \<Longrightarrow> rule_budget p = []"
  "filter is_digit (or_else (p (str ''revenue'')) []) = [] \<Longrightarrow> rule_runway p = []"
  "filter (\<lambda>c. is_digit c \<or> c = 46) (or_else (p (str ''churnRate'')) []) = [] \<Longrightarrow> rule_churn p = []"
  by (auto simp: rule_team_def rule_runway_def rule_budget_def rule_churn_def teamNum_def
      parseInt_digits_def parseFloat_dec_def num_test_def truthy_def or_else_def Let_def
      split: option.splits if_splits)

text \<open>
  The churn rule compares the double that \<open>parseFloat\<close> returns: a text that reads
  as a decimal just above 5 parses to the double 5 and raises no flag.
\<close>

lemma churn_parse_values:
  "parseFloat_dec (str ''5.0000000000000000001'') = Some 5"
  "parseFloat_dec (str ''5.1'') = Some (dbl (51 / 10))"
  "5 < dbl (51 / 10)"
  by (simp_all add: parseFloat_dec_def digits_value_def is_digit_def str_def dbl_eval)

lemma churn_at_threshold:
  "rule_churn (churn_profile_of ''5.0000000000000000001%'') = []"
  "rule_churn (churn_profile_of ''5.1%'') =
     [\<lparr>ftype = Contradiction, fseverity = High,
       issue = str ''Leaky bucket: high churn with acquisition focus''\<rparr>]"
  using churn_parse_values
  by (simp_all add: rule_churn_def churn_profile_of_def truthy_def or_else_def regex_test_def
      regex_test_i_def pattern_def unit_matches_def fold_ascii_def num_test_def is_digit_def
      str_def)

section \<open>Properties of the normalized scores\<close>














text \<open>
  Where the two references coincide the premise on the references fails, and the test
  against the good reference, which comes first, decides: with a median of 0 and no
  references in the table both derived references are 0, and the user value 0 scores 100.
\<close>

lemma score_at_coinciding_references:
  "goodVal True zero_median 0 = 0 \<and> badVal True zero_median 0 = 0
   \<and> normForBar True (goodVal True zero_median 0) (badVal True zero_median 0) (Some 0) = Some 100
   \<and> healthScore True (goodVal True zero_median 0) (badVal True zero_median 0) 0 = 100"
  by (simp add: zero_median_def goodVal_def badVal_def normForBar_def healthScore_def dbl_def)

section \<open>Properties of the chart data\<close>

lemma chart_step_lengths:
  "bar_lengths a n \<Longrightarrow>
   bar_lengths (chart_step bm a m) (if tracked bm m \<noteq> None then Suc n else n)"
  by (auto simp: bar_lengths_def chart_step_def Let_def split: option.splits)

lemma chart_fold_lengths:
  "bar_lengths a n \<Longrightarrow>
   bar_lengths (foldl (chart_step bm) a ms) (n + tracked_count bm ms)"
proof (induction ms arbitrary: a n)
  case Nil
  then show ?case by (simp add: tracked_count_def)
next
  case (Cons m ms)
  from Cons.IH [OF chart_step_lengths [OF Cons.prems, of bm m]]
  show ?case by (cases "tracked bm m") (simp_all add: tracked_count_def)
qed

lemma chart_arrays_lengths:
  "bar_lengths (foldl (chart_step bm) no_arrays ms) (tracked_count bm ms)"
proof -
  have "bar_lengths no_arrays 0" by (simp add: bar_lengths_def no_arrays_def)
  from chart_fold_lengths [OF this, of bm ms] show ?thesis by simp
qed

text \<open>
  C10. With a benchmark table at hand, \<open>buildChartData\<close> returns \<open>null\<close> when no
  metric has a table entry with a median; otherwise it returns a structure whose seven bar
  arrays (labels, user, median, good, units, rawUser, rawMedian) all have one entry for
  each metric with a median.
\<close>

theorem buildChartData_bar_lengths:
  assumes "benchmarks sd = Some bm"
  shows "(tracked_count bm (metricDefs p) = 0 \<longrightarrow> buildChartData p (Some sd) = None)
       \<and> (tracked_count bm (metricDefs p) \<noteq> 0 \<longrightarrow>
            (\<exists>c. buildChartData p (Some sd) = Some c
                 \<and> bar_lengths (arrays c) (tracked_count bm (metricDefs p))))"
proof -
  let ?a = "foldl (chart_step bm) no_arrays (metricDefs p)"
  have len: "bar_lengths ?a (tracked_count bm (metricDefs p))"
    by (rule chart_arrays_lengths)
  then have n: "length (barLabels ?a) = tracked_count bm (metricDefs p)"
    by (simp add: bar_lengths_def)
  have res: "buildChartData p (Some sd) =
      (if length (barLabels ?a) = 0 then None
       else Some \<lparr>stageLabel = stage_label sd, arrays = ?a\<rparr>)"
    using assms by (simp add: buildChartData_def Let_def)
  show ?thesis
    unfolding res n using len by simp
qed

lemma sample_count: "tracked_count sample_table (metricDefs churn_profile) = 2"
  by (simp add: tracked_count_def tracked_def sample_table_def metricDefs_def str_def)

lemma empty_count: "tracked_count (\<lambda>k. None) (metricDefs churn_profile) = 0"
  by (simp add: tracked_count_def tracked_def metricDefs_def)

theorem buildChartData_bar_lengths_witness:
  "benchmarks sample_stage = Some sample_table
   \<and> (\<exists>c. buildChartData churn_profile (Some sample_stage) = Some c \<and> bar_lengths (arrays c) 2)
   \<and> buildChartData churn_profile (Some (sample_stage\<lparr>benchmarks := Some (\<lambda>k. None)\<rparr>)) = None"
proof -
  have h1: "benchmarks sample_stage = Some sample_table"
    by (simp add: sample_stage_def)
  have h2: "benchmarks (sample_stage\<lparr>benchmarks := Some (\<lambda>k. None)\<rparr>) = Some (\<lambda>k. None)"
    by simp
  show ?thesis
    using buildChartData_bar_lengths [OF h1, of churn_profile]
      buildChartData_bar_lengths [OF h2, of churn_profile] h1 sample_count empty_count
    by simp
qed

lemma sample_dbl_values:
  "dbl 3 = 3" "dbl 5 = 5" "dbl 6 = 6" "dbl 14 = 14" "dbl 34 = 34" "dbl 40 = 40" "dbl 50 = 50"
  "dbl 300 = 300" "dbl 1400 = 1400" "dbl (20 * dbl (3 / 10)) = 6"
  "js_round (dbl (700 / 17)) = 41" "js_round 50 = 50"
  by (simp_all add: dbl_eval js_round_def)

lemma sample_chart_bars:
  "map_option (\<lambda>c. (barLabels (arrays c), barUser (arrays c), barMedian (arrays c),
                     barRawUser (arrays c), barRawMedian (arrays c)))
     (buildChartData churn_profile (Some sample_stage)) =
   Some ([str ''Monthly Churn'', str ''Win Rate''], [Some 50, None], [Some 50, Some 41],
         [Some 5, None], [5, 20])"
  by (simp add: buildChartData_def sample_stage_def sample_table_def churn_profile_def
      metricDefs_def chart_step_def tracked_def no_arrays_def num_def parseFloat_dec_def
      digits_value_def is_digit_def goodVal_def badVal_def normForBar_def normalize_def
      str_def Let_def sample_dbl_values)

end
